theory Spec2Isabelle
  imports Main "HOL-Library.Sublist"
begin

section \<open>The persistent store\<close>

text \<open>
  The service keeps three SQLite tables. A row of \<open>reports\<close> is
  \<open>(id INTEGER PRIMARY KEY AUTOINCREMENT, ip TEXT, timestamp INTEGER)\<close>, a row of
  \<open>blacklisted_ips\<close> is \<open>(id ..., ip TEXT UNIQUE, timestamp INTEGER, reason TEXT)\<close> and a
  row of \<open>settings\<close> is \<open>(key TEXT PRIMARY KEY, value TEXT)\<close>. Tables are lists of rows in
  insertion order. \<open>Date.now()\<close> is an integer number of milliseconds and is kept as
  \<open>int\<close>. The two AUTOINCREMENT counters of \<open>sqlite_sequence\<close> are part of the state,
  since a deleted row's id is never handed out again.
\<close>

record report =
  report_id :: int
  report_ip :: string
  report_timestamp :: int

record blacklisted_ip =
  bl_id :: int
  bl_ip :: string
  bl_timestamp :: int
  bl_reason :: string

record db =
  reports :: "report list"
  reports_seq :: int
  blacklisted_ips :: "blacklisted_ip list"
  blacklisted_ips_seq :: int
  settings :: "(string \<times> string) list"

definition empty_db :: db where
  "empty_db = \<lparr>reports = [], reports_seq = 0, blacklisted_ips = [],
     blacklisted_ips_seq = 0, settings = []\<rparr>"

text \<open>AUTOINCREMENT: one more than the largest id the table has ever held.\<close>

definition next_id :: "int \<Rightarrow> int list \<Rightarrow> int" where
  "next_id seq ids = fold max ids seq + 1"

text \<open>\<open>SELECT value FROM settings WHERE key = ?\<close>: the row or undefined.\<close>

definition select_setting :: "string \<Rightarrow> db \<Rightarrow> string option" where
  "select_setting k d = map_of (settings d) k"

text \<open>\<open>UPDATE settings SET value = ? WHERE key = ?\<close>: rewrites the rows that have the key
  and inserts nothing.\<close>

definition update_setting :: "string \<Rightarrow> string \<Rightarrow> db \<Rightarrow> db" where
  "update_setting k v d =
     d\<lparr>settings := map (\<lambda>(k', v'). if k' = k then (k', v) else (k', v')) (settings d)\<rparr>"

text \<open>\<open>INSERT OR IGNORE INTO settings (key, value) VALUES (?, ?)\<close>: the primary key makes
  the insert a no-op when the key is there.\<close>

definition insert_or_ignore_setting :: "string \<Rightarrow> string \<Rightarrow> db \<Rightarrow> db" where
  "insert_or_ignore_setting k v d =
     (if k \<in> fst ` set (settings d) then d else d\<lparr>settings := settings d @ [(k, v)]\<rparr>)"

text \<open>\<open>SELECT 1 FROM blacklisted_ips WHERE ip = ?\<close>.\<close>

definition select_blacklisted :: "string \<Rightarrow> db \<Rightarrow> bool" where
  "select_blacklisted a d = list_ex (\<lambda>e. bl_ip e = a) (blacklisted_ips d)"

text \<open>\<open>SELECT 1 FROM reports WHERE ip = ? AND timestamp > ? LIMIT 1\<close>.\<close>

definition select_recent :: "string \<Rightarrow> int \<Rightarrow> db \<Rightarrow> bool" where
  "select_recent a since d =
     list_ex (\<lambda>r. report_ip r = a \<and> report_timestamp r > since) (reports d)"

text \<open>\<open>SELECT * FROM reports WHERE timestamp > ?\<close>.\<close>

definition select_reports_since :: "int \<Rightarrow> db \<Rightarrow> report list" where
  "select_reports_since since d = filter (\<lambda>r. report_timestamp r > since) (reports d)"

text \<open>\<open>INSERT INTO reports (ip, timestamp) VALUES (?, ?)\<close>.\<close>

definition insert_report :: "string \<Rightarrow> int \<Rightarrow> db \<Rightarrow> db" where
  "insert_report a t d =
     (let i = next_id (reports_seq d) (map report_id (reports d))
      in d\<lparr>reports := reports d @ [\<lparr>report_id = i, report_ip = a, report_timestamp = t\<rparr>],
            reports_seq := i\<rparr>)"

text \<open>
  \<open>INSERT INTO blacklisted_ips (ip, timestamp, reason) VALUES (?, ?, ?)\<close>. The statement
  is the one place where the program catches a rejected promise, so its failures are
  values here: \<open>Inl\<close> carries the message of the error. The engine itself raises the
  UNIQUE violation of the \<open>ip\<close> column; any other failure of the engine (a full disk, a
  locked file) is not decided by the program and comes in as the parameter \<open>fault\<close>, the
  message of that failure when there is one. A failed statement changes nothing.
\<close>

definition unique_violation :: string where
  "unique_violation = ''SQLITE_CONSTRAINT: UNIQUE constraint failed: blacklisted_ips.ip''"

definition insert_blacklisted ::
  "string option \<Rightarrow> string \<Rightarrow> int \<Rightarrow> string \<Rightarrow> db \<Rightarrow> string + db" where
  "insert_blacklisted fault a t why d =
     (case fault of
        Some msg \<Rightarrow> Inl msg
      | None \<Rightarrow>
          if select_blacklisted a d then Inl unique_violation
          else
            (let i = next_id (blacklisted_ips_seq d) (map bl_id (blacklisted_ips d))
             in Inr (d\<lparr>blacklisted_ips := blacklisted_ips d @
                          [\<lparr>bl_id = i, bl_ip = a, bl_timestamp = t, bl_reason = why\<rparr>],
                        blacklisted_ips_seq := i\<rparr>)))"

text \<open>\<open>DELETE FROM blacklisted_ips WHERE ip = ?\<close>.\<close>

definition delete_blacklisted :: "string \<Rightarrow> db \<Rightarrow> db" where
  "delete_blacklisted a d =
     d\<lparr>blacklisted_ips := filter (\<lambda>e. bl_ip e \<noteq> a) (blacklisted_ips d)\<rparr>"

text \<open>
  The start-up block: the three \<open>CREATE TABLE IF NOT EXISTS\<close> keep whatever the file
  already holds, and the two default settings are inserted unless present.
\<close>

definition startup :: "db \<Rightarrow> db" where
  "startup d =
     insert_or_ignore_setting ''force_status'' ''auto''
       (insert_or_ignore_setting ''maintenance_mode'' ''false'' d)"

section \<open>Requests and responses\<close>

text \<open>
  A JSON value of the request body, as far as JavaScript's truthiness tells values
  apart: numbers are integers here, and arrays and objects are one value \<open>JObject\<close>.
\<close>

datatype jsval = JUndefined | JNull | JBool bool | JNum int | JStr string | JObject

fun truthy :: "jsval \<Rightarrow> bool" where
  "truthy JUndefined = False"
| "truthy JNull = False"
| "truthy (JBool b) = b"
| "truthy (JNum n) = (n \<noteq> 0)"
| "truthy (JStr s) = (s \<noteq> [])"
| "truthy JObject = True"

text \<open>
  The fields the handlers destructure from \<open>req.body\<close>, the object that
  \<open>express.json()\<close> leaves on the request. A field the handlers only compare with
  strings or bind as an SQL text is \<open>string option\<close>: \<open>None\<close> is a missing field,
  \<open>Some s\<close> a JSON string. For \<open>username\<close>, \<open>password\<close> and \<open>status\<close> a value of another
  JSON type acts as a string that matches nothing; for \<open>ip\<close> and \<open>reason\<close> only strings
  are covered. \<open>enabled\<close> is only tested for truthiness.
\<close>

record body =
  username :: "string option"
  password :: "string option"
  status :: "string option"
  enabled :: jsval
  ip :: "string option"
  reason :: "string option"

datatype http_method = GET | HEAD | POST | PUT | DELETE

text \<open>\<open>req.session\<close> holds the flag \<open>isAdmin\<close>; \<open>req.session\<close> itself may be undefined.\<close>

record session =
  isAdmin :: bool

record request =
  req_method :: http_method
  req_path :: string
  x_forwarded_for :: "string option"
  remoteAddress :: string
  req_session :: "session option"
  req_body :: body

datatype payload =
    Error string
  | Success
  | Status string nat "report list" bool
  | BasicStatus string nat "report list"
  | Dashboard "(string \<times> nat \<times> int) list" "blacklisted_ip list" "(string \<times> string) list"
  | SendFile string
  | NotFound

text \<open>A response is a status code with its payload; \<open>Threw\<close> is an uncaught exception.\<close>

datatype response = Response nat payload | Threw string

text \<open>What the process reads from its environment and its \<open>public\<close> directory: the two
  admin secrets, and the request paths that \<open>express.static\<close> finds a file for.\<close>

record config =
  ADMIN_USERNAME :: "string option"
  ADMIN_PASSWORD :: "string option"
  public_files :: "string list"

section \<open>The access gate\<close>

text \<open>The regular expression of the gate has the flag \<open>i\<close>: ASCII letters are compared
  without case.\<close>

definition lower_char :: "char \<Rightarrow> char" where
  "lower_char c =
     (let n = (of_char c :: nat) in if 65 \<le> n \<and> n \<le> 90 then char_of (n + 32) else c)"

definition asset_extensions :: "string list" where
  "asset_extensions =
     [''png'', ''jpg'', ''jpeg'', ''gif'', ''svg'', ''css'', ''js'', ''ttf'', ''woff'',
      ''woff2'', ''ico'']"

text \<open>\<open>/\.(png|jpg|jpeg|gif|svg|css|js|ttf|woff|woff2|ico)$/i.test(req.path)\<close>.\<close>

definition isStaticAsset :: "string \<Rightarrow> bool" where
  "isStaticAsset p =
     list_ex (\<lambda>e. suffix (CHR ''.'' # e) (map lower_char p)) asset_extensions"

text \<open>\<open>req.path.startsWith('/admin')\<close>.\<close>

definition isAdminPath :: "string \<Rightarrow> bool" where
  "isAdminPath p = prefix ''/admin'' p"

text \<open>\<open>x || y\<close> for a string \<open>x\<close> that may be missing: a missing or empty \<open>x\<close> is
  falsy.\<close>

definition falsy :: "string option \<Rightarrow> bool" where
  "falsy x = (case x of None \<Rightarrow> True | Some s \<Rightarrow> s = [])"

definition or_else :: "string option \<Rightarrow> string \<Rightarrow> string" where
  "or_else x y = (case x of None \<Rightarrow> y | Some s \<Rightarrow> if s = [] then y else s)"

text \<open>\<open>req.headers["x-forwarded-for"] || req.socket.remoteAddress\<close>.\<close>

definition clientIP :: "request \<Rightarrow> string" where
  "clientIP req = or_else (x_forwarded_for req) (remoteAddress req)"

definition maintenance_page :: response where
  "maintenance_page = Response 200 (SendFile ''public/maintenance.html'')"

definition access_denied :: response where
  "access_denied = Response 403 (Error ''Access denied'')"

text \<open>The first middleware: \<open>Some r\<close> answers the request with \<open>r\<close>, \<open>None\<close> is
  \<open>next()\<close>.\<close>

definition access_gate :: "request \<Rightarrow> db \<Rightarrow> response option" where
  "access_gate req d =
     (if \<not> isAdminPath (req_path req) \<and> \<not> isStaticAsset (req_path req)
         \<and> (case select_setting ''maintenance_mode'' d of
               Some v \<Rightarrow> v = ''true'' | None \<Rightarrow> False)
      then Some maintenance_page
      else if select_blacklisted (clientIP req) d \<and> \<not> isAdminPath (req_path req)
      then Some access_denied
      else None)"

section \<open>The admin session gate and the admin handlers\<close>

definition authentication_required :: response where
  "authentication_required = Response 401 (Error ''Authentication required'')"

text \<open>\<open>requireAuth\<close>: \<open>next()\<close> is the wrapped handler, run on the store.\<close>

definition requireAuth :: "request \<Rightarrow> (db \<Rightarrow> db \<times> response) \<Rightarrow> db \<Rightarrow> db \<times> response" where
  "requireAuth req next d =
     (if (case req_session req of Some s \<Rightarrow> isAdmin s | None \<Rightarrow> False) then next d
      else (d, authentication_required))"

text \<open>\<open>POST /admin/login\<close> writes only the session; assigning \<open>isAdmin\<close> on an
  undefined session throws.\<close>

definition post_admin_login :: "config \<Rightarrow> request \<Rightarrow> session option \<times> response" where
  "post_admin_login cfg req =
     (let u = username (req_body req); p = password (req_body req) in
      if falsy u \<or> falsy p
      then (req_session req, Response 400 (Error ''Username and password required''))
      else if u = ADMIN_USERNAME cfg \<and> p = ADMIN_PASSWORD cfg
      then (case req_session req of
              None \<Rightarrow> (None, Threw ''TypeError'')
            | Some s \<Rightarrow> (Some (s\<lparr>isAdmin := True\<rparr>), Response 200 Success))
      else (req_session req, Response 401 (Error ''Invalid credentials'')))"

definition post_admin_logout :: "request \<Rightarrow> session option \<times> response" where
  "post_admin_logout req =
     (case req_session req of
        None \<Rightarrow> (None, Threw ''TypeError'')
      | Some s \<Rightarrow> (None, Response 200 Success))"

definition get_admin :: response where
  "get_admin = Response 200 (SendFile ''public/admin.html'')"

definition day_ms :: int where
  "day_ms = 24 * 60 * 60 * 1000"

text \<open>
  \<open>SELECT ip, COUNT(*) as count, MAX(timestamp) as last_report FROM reports
  WHERE timestamp > ? GROUP BY ip ORDER BY count DESC\<close>. SQL leaves the order of groups
  with equal counts to the engine; here they stay in the order of their first row.
\<close>

definition group_row :: "report list \<Rightarrow> string \<Rightarrow> (string \<times> nat \<times> int) option" where
  "group_row rs a =
     (case filter (\<lambda>r. report_ip r = a) rs of
        [] \<Rightarrow> None
      | r # g \<Rightarrow>
          Some (a, Suc (length g), fold max (map report_timestamp g) (report_timestamp r)))"

definition group_reports :: "report list \<Rightarrow> (string \<times> nat \<times> int) list" where
  "group_reports rs =
     sort_key (\<lambda>(a, c, l). - int c)
       (List.map_filter (group_row rs) (remdups (map report_ip rs)))"

definition get_admin_dashboard :: "int \<Rightarrow> db \<Rightarrow> db \<times> response" where
  "get_admin_dashboard now d =
     (let since = now - day_ms;
          reports = group_reports (select_reports_since since d);
          blacklistedIPs = sort_key (\<lambda>e. - bl_timestamp e) (blacklisted_ips d)
      in (d, Response 200 (Dashboard reports blacklistedIPs (settings d))))"

definition post_admin_set_status :: "body \<Rightarrow> db \<Rightarrow> db \<times> response" where
  "post_admin_set_status b d =
     (case status b of
        None \<Rightarrow> (d, Response 400 (Error ''Invalid status. Must be up, down, or auto''))
      | Some v \<Rightarrow>
          if v \<notin> set [''up'', ''down'', ''auto'']
          then (d, Response 400 (Error ''Invalid status. Must be up, down, or auto''))
          else (update_setting ''force_status'' v d, Response 200 Success))"

definition post_admin_maintenance :: "body \<Rightarrow> db \<Rightarrow> db \<times> response" where
  "post_admin_maintenance b d =
     (update_setting ''maintenance_mode'' (if truthy (enabled b) then ''true'' else ''false'') d,
      Response 200 Success)"

text \<open>\<open>error.message.includes('UNIQUE constraint failed')\<close> is a substring test.\<close>

definition str_includes :: "string \<Rightarrow> string \<Rightarrow> bool" where
  "str_includes s needle = sublist needle s"

definition post_admin_blacklist :: "int \<Rightarrow> string option \<Rightarrow> body \<Rightarrow> db \<Rightarrow> db \<times> response" where
  "post_admin_blacklist now fault b d =
     (case ip b of
        None \<Rightarrow> (d, Response 400 (Error ''IP address required''))
      | Some a \<Rightarrow>
          if a = [] then (d, Response 400 (Error ''IP address required''))
          else
            (case insert_blacklisted fault a now (or_else (reason b) ''No reason provided'') d of
               Inr d' \<Rightarrow> (d', Response 200 Success)
             | Inl message \<Rightarrow>
                 if str_includes message ''UNIQUE constraint failed''
                 then (d, Response 400 (Error ''IP already blacklisted''))
                 else (d, Response 500 (Error ''Database error''))))"

definition delete_admin_blacklist :: "string \<Rightarrow> db \<Rightarrow> db \<times> response" where
  "delete_admin_blacklist a d = (delete_blacklisted a d, Response 200 Success)"

section \<open>The public handlers\<close>

definition rate_limited :: response where
  "rate_limited = Response 429 (Error ''You can only report once every 24 hours.'')"

text \<open>\<open>POST /report\<close>, the same text in both versions of the server.\<close>

definition post_report :: "request \<Rightarrow> int \<Rightarrow> db \<Rightarrow> db \<times> response" where
  "post_report req now d =
     (let ip = clientIP req; since = now - day_ms in
      if select_recent ip since d then (d, rate_limited)
      else (insert_report ip now d, Response 200 Success))"

definition up_phrase :: string where
  "up_phrase = ''Korone is up''"

definition down_phrase :: string where
  "down_phrase = ''Korone is probably down''"

text \<open>\<open>GET /status\<close> of the server with the admin surface.\<close>

definition get_status :: "int \<Rightarrow> db \<Rightarrow> response" where
  "get_status now d =
     (let forceStatus = select_setting ''force_status'' d in
      if (case forceStatus of Some v \<Rightarrow> v \<noteq> ''auto'' | None \<Rightarrow> False)
      then Response 200
             (Status (if forceStatus = Some ''up'' then up_phrase else down_phrase) 0 [] True)
      else
        (let since = now - day_ms;
             reports = select_reports_since since d;
             count = length reports
         in Response 200
              (Status (if count \<ge> 30 then down_phrase else up_phrase) count reports False)))"

text \<open>\<open>GET /status\<close> of \<open>server.js\<close>, which has no settings: the response has no
  \<open>forced\<close> field.\<close>

definition get_status_basic :: "int \<Rightarrow> db \<Rightarrow> response" where
  "get_status_basic now d =
     (let since = now - day_ms;
          reports = select_reports_since since d;
          count = length reports
      in Response 200
           (BasicStatus (if count \<ge> 30 then down_phrase else up_phrase) count reports))"

section \<open>The application\<close>

text \<open>
  The routes in the order they are registered. Express also runs a \<open>get\<close> route for a
  HEAD request. The path is matched literally: Express's disregard of letter case and of
  a trailing slash, and the percent-decoding of the \<open>:ip\<close> parameter, are left out.
\<close>

definition is_get :: "http_method \<Rightarrow> bool" where
  "is_get m = (m = GET \<or> m = HEAD)"

definition route_param :: "string \<Rightarrow> string \<Rightarrow> string option" where
  "route_param pre p =
     (if prefix pre p \<and> drop (length pre) p \<noteq> [] \<and> CHR ''/'' \<notin> set (drop (length pre) p)
      then Some (drop (length pre) p) else None)"

definition keep_session :: "request \<Rightarrow> db \<times> response \<Rightarrow> db \<times> session option \<times> response" where
  "keep_session req x = (fst x, req_session req, snd x)"

definition keep_db :: "db \<Rightarrow> session option \<times> response \<Rightarrow> db \<times> session option \<times> response" where
  "keep_db d x = (d, fst x, snd x)"

definition router ::
  "config \<Rightarrow> int \<Rightarrow> string option \<Rightarrow> request \<Rightarrow> db \<Rightarrow> db \<times> session option \<times> response" where
  "router cfg now fault req d =
     (let m = req_method req; p = req_path req in
      if m = POST \<and> p = ''/admin/login'' then keep_db d (post_admin_login cfg req)
      else if m = POST \<and> p = ''/admin/logout'' then keep_db d (post_admin_logout req)
      else if is_get m \<and> p = ''/admin'' then (d, req_session req, get_admin)
      else if is_get m \<and> p = ''/admin/dashboard''
      then keep_session req (requireAuth req (get_admin_dashboard now) d)
      else if m = POST \<and> p = ''/admin/set-status''
      then keep_session req (requireAuth req (post_admin_set_status (req_body req)) d)
      else if m = POST \<and> p = ''/admin/maintenance''
      then keep_session req (requireAuth req (post_admin_maintenance (req_body req)) d)
      else if m = POST \<and> p = ''/admin/blacklist''
      then keep_session req (requireAuth req (post_admin_blacklist now fault (req_body req)) d)
      else
        (case (if m = DELETE then route_param ''/admin/blacklist/'' p else None) of
           Some a \<Rightarrow> keep_session req (requireAuth req (delete_admin_blacklist a) d)
         | None \<Rightarrow>
             if m = POST \<and> p = ''/report'' then keep_session req (post_report req now d)
             else if is_get m \<and> p = ''/status'' then (d, req_session req, get_status now d)
             else (d, req_session req, Response 404 NotFound)))"

text \<open>The gate, then \<open>express.static("public")\<close>, then the routes.\<close>

definition app ::
  "config \<Rightarrow> int \<Rightarrow> string option \<Rightarrow> request \<Rightarrow> db \<Rightarrow> db \<times> session option \<times> response" where
  "app cfg now fault req d =
     (case access_gate req d of
        Some r \<Rightarrow> (d, req_session req, r)
      | None \<Rightarrow>
          if is_get (req_method req) \<and> req_path req \<in> set (public_files cfg)
          then (d, req_session req, Response 200 (SendFile (''public'' @ req_path req)))
          else router cfg now fault req d)"

text \<open>One request as the store sees it: the clock reading, the engine failure met by
  the blacklist insert if any, and the request.\<close>

record event =
  ev_now :: int
  ev_fault :: "string option"
  ev_req :: request

fun run :: "config \<Rightarrow> event list \<Rightarrow> db \<Rightarrow> db" where
  "run cfg [] d = d"
| "run cfg (e # es) d = run cfg es (fst (app cfg (ev_now e) (ev_fault e) (ev_req e) d))"

section \<open>Sample requests and stores\<close>

text \<open>The body \<open>{}\<close>, a request of an anonymous visitor at an address, a request that
  carries an authenticated admin session, a process without secrets or public files, and
  a seeded store whose ledger holds \<open>n\<close> reports, one per millisecond from time 1 on.\<close>

definition empty_body :: body where
  "empty_body = \<lparr>username = None, password = None, status = None, enabled = JUndefined,
     ip = None, reason = None\<rparr>"

definition visitor :: "http_method \<Rightarrow> string \<Rightarrow> string \<Rightarrow> request" where
  "visitor m p a = \<lparr>req_method = m, req_path = p, x_forwarded_for = None, remoteAddress = a,
     req_session = None, req_body = empty_body\<rparr>"

definition admin :: "http_method \<Rightarrow> string \<Rightarrow> body \<Rightarrow> request" where
  "admin m p b = \<lparr>req_method = m, req_path = p, x_forwarded_for = None, remoteAddress = ''127.0.0.1'',
     req_session = Some \<lparr>isAdmin = True\<rparr>, req_body = b\<rparr>"

definition bare_config :: config where
  "bare_config = \<lparr>ADMIN_USERNAME = None, ADMIN_PASSWORD = None, public_files = []\<rparr>"

definition ledger :: "nat \<Rightarrow> db" where
  "ledger n = (startup empty_db)\<lparr>reports :=
      map (\<lambda>i. \<lparr>report_id = int i, report_ip = ''10.0.0.7'', report_timestamp = int i\<rparr>) [1..<Suc n]\<rparr>"

text \<open>The requests whose route is registered with \<open>requireAuth\<close>.\<close>

definition guarded :: "request \<Rightarrow> bool" where
  "guarded req \<longleftrightarrow>
     (is_get (req_method req) \<and> req_path req = ''/admin/dashboard'')
     \<or> (req_method req = POST \<and> req_path req = ''/admin/set-status'')
     \<or> (req_method req = POST \<and> req_path req = ''/admin/maintenance'')
     \<or> (req_method req = POST \<and> req_path req = ''/admin/blacklist'')
     \<or> (req_method req = DELETE \<and> route_param ''/admin/blacklist/'' (req_path req) \<noteq> None)"

text \<open>An admin's request to blacklist an address, and the event of its arrival at a
  time.\<close>

definition add_request :: "string \<Rightarrow> request" where
  "add_request a = admin POST ''/admin/blacklist'' (empty_body\<lparr>ip := Some a\<rparr>)"

definition add_event :: "string \<Rightarrow> int \<Rightarrow> event" where
  "add_event a t = \<lparr>ev_now = t, ev_fault = None, ev_req = add_request a\<rparr>"

text \<open>The specification calls the write of \<open>force_status\<close> an upsert. This is that
  upsert in the specification's sense, to compare the program's UPDATE with.\<close>

definition spec_upsert_setting :: "string \<Rightarrow> string \<Rightarrow> db \<Rightarrow> db" where
  "spec_upsert_setting k v d =
     (if k \<in> fst ` set (settings d) then update_setting k v d
      else d\<lparr>settings := settings d @ [(k, v)]\<rparr>)"

section \<open>Reading the tables\<close>

lemma select_recent_iff:
  "select_recent a since d \<longleftrightarrow>
     (\<exists>r \<in> set (reports d). report_ip r = a \<and> report_timestamp r > since)"
  by (simp add: select_recent_def list_ex_iff)

lemma select_blacklisted_iff:
  "select_blacklisted a d \<longleftrightarrow> a \<in> bl_ip ` set (blacklisted_ips d)"
  by (auto simp: select_blacklisted_def list_ex_iff)

section \<open>Report submission\<close>

lemma post_report_limited:
  assumes "\<exists>r \<in> set (reports d). report_ip r = clientIP req \<and> report_timestamp r > T - 86400000"
  shows "post_report req T d = (d, Response 429 (Error ''You can only report once every 24 hours.''))"
  using assms by (simp add: post_report_def select_recent_iff day_ms_def rate_limited_def)

lemma post_report_accepted:
  assumes "\<not> (\<exists>r \<in> set (reports d). report_ip r = clientIP req \<and> report_timestamp r > T - 86400000)"
  shows "post_report req T d =
     (d\<lparr>reports := reports d @
           [\<lparr>report_id = next_id (reports_seq d) (map report_id (reports d)),
             report_ip = clientIP req, report_timestamp = T\<rparr>],
         reports_seq := next_id (reports_seq d) (map report_id (reports d))\<rparr>,
      Response 200 Success)"
  using assms by (auto simp: post_report_def select_recent_iff day_ms_def insert_report_def Let_def)

text \<open>
  C1: \<open>POST /report\<close> from address \<open>A\<close> at time \<open>T\<close> answers 429 "You can only report
  once every 24 hours." and leaves the store as it is when the ledger has a row of \<open>A\<close>
  with a timestamp strictly above \<open>T - 86400000\<close>; otherwise it appends the one row
  \<open>(A, T)\<close> and answers success. After such a success a report of \<open>A\<close> at any time
  strictly between \<open>T\<close> and \<open>T + 86400000\<close> is rate-limited, and one at
  \<open>T + 86400000 + 1\<close> succeeds and appends a second row.
\<close>

theorem post_report_window:
  "((\<exists>r \<in> set (reports d). report_ip r = clientIP req \<and> report_timestamp r > T - 86400000) \<longrightarrow>
      post_report req T d =
        (d, Response 429 (Error ''You can only report once every 24 hours.'')))
   \<and> (\<not> (\<exists>r \<in> set (reports d). report_ip r = clientIP req \<and> report_timestamp r > T - 86400000) \<longrightarrow>
      (\<exists>i. post_report req T d =
        (d\<lparr>reports := reports d @ [\<lparr>report_id = i, report_ip = clientIP req, report_timestamp = T\<rparr>],
           reports_seq := i\<rparr>, Response 200 Success))
      \<and> (\<forall>req' T'. clientIP req' = clientIP req \<and> T < T' \<and> T' < T + 86400000 \<longrightarrow>
            post_report req' T' (fst (post_report req T d)) =
              (fst (post_report req T d),
               Response 429 (Error ''You can only report once every 24 hours.'')))
      \<and> (\<forall>req'. clientIP req' = clientIP req \<longrightarrow>
            snd (post_report req' (T + 86400000 + 1) (fst (post_report req T d))) =
              Response 200 Success
            \<and> length (reports (fst (post_report req' (T + 86400000 + 1) (fst (post_report req T d)))))
              = length (reports d) + 2))"
proof (intro conjI impI allI)
  assume "\<exists>r \<in> set (reports d). report_ip r = clientIP req \<and> report_timestamp r > T - 86400000"
  then show "post_report req T d =
        (d, Response 429 (Error ''You can only report once every 24 hours.''))"
    by (rule post_report_limited)
next
  assume n: "\<not> (\<exists>r \<in> set (reports d). report_ip r = clientIP req \<and> report_timestamp r > T - 86400000)"
  show "\<exists>i. post_report req T d =
        (d\<lparr>reports := reports d @ [\<lparr>report_id = i, report_ip = clientIP req, report_timestamp = T\<rparr>],
           reports_seq := i\<rparr>, Response 200 Success)"
    using post_report_accepted [OF n] by blast
next
  fix req' T'
  assume n: "\<not> (\<exists>r \<in> set (reports d). report_ip r = clientIP req \<and> report_timestamp r > T - 86400000)"
    and w: "clientIP req' = clientIP req \<and> T < T' \<and> T' < T + 86400000"
  let ?d1 = "fst (post_report req T d)"
  have "\<exists>r \<in> set (reports ?d1). report_ip r = clientIP req' \<and> report_timestamp r > T' - 86400000"
    using w by (simp add: post_report_accepted [OF n])
  then show "post_report req' T' ?d1 =
      (?d1, Response 429 (Error ''You can only report once every 24 hours.''))"
    by (rule post_report_limited)
next
  fix req'
  assume n: "\<not> (\<exists>r \<in> set (reports d). report_ip r = clientIP req \<and> report_timestamp r > T - 86400000)"
    and w: "clientIP req' = clientIP req"
  let ?d1 = "fst (post_report req T d)"
  have m: "\<not> (\<exists>r \<in> set (reports ?d1). report_ip r = clientIP req'
            \<and> report_timestamp r > (T + 86400000 + 1) - 86400000)"
    using n w by (auto simp: post_report_accepted [OF n])
  show "snd (post_report req' (T + 86400000 + 1) ?d1) = Response 200 Success"
    using post_report_accepted [OF m] by simp
  show "length (reports (fst (post_report req' (T + 86400000 + 1) ?d1))) = length (reports d) + 2"
    using post_report_accepted [OF m] post_report_accepted [OF n] by simp
qed

theorem post_report_window_witness:
  "(\<exists>i. post_report (visitor POST ''/report'' ''10.0.0.7'') 1000 empty_db =
      (empty_db\<lparr>reports := [\<lparr>report_id = i, report_ip = ''10.0.0.7'', report_timestamp = 1000\<rparr>],
         reports_seq := i\<rparr>, Response 200 Success))
   \<and> snd (post_report (visitor POST ''/report'' ''10.0.0.7'') 5000
        (fst (post_report (visitor POST ''/report'' ''10.0.0.7'') 1000 empty_db))) =
       Response 429 (Error ''You can only report once every 24 hours.'')
   \<and> snd (post_report (visitor POST ''/report'' ''10.0.0.7'') 86401001
        (fst (post_report (visitor POST ''/report'' ''10.0.0.7'') 1000 empty_db))) =
       Response 200 Success"
proof -
  let ?r = "visitor POST ''/report'' ''10.0.0.7''"
  have ip: "clientIP ?r = ''10.0.0.7''"
    by (simp add: clientIP_def or_else_def visitor_def)
  have n: "\<not> (\<exists>r \<in> set (reports empty_db). report_ip r = clientIP ?r
             \<and> report_timestamp r > 1000 - 86400000)"
    by (simp add: empty_db_def)
  note w = post_report_window [of empty_db ?r 1000, THEN conjunct2, THEN mp, OF n]
  note w1 = w [THEN conjunct1]
  note w2 = w [THEN conjunct2, THEN conjunct1, rule_format]
  note w3 = w [THEN conjunct2, THEN conjunct2, rule_format, THEN conjunct1]
  have a: "\<exists>i. post_report ?r 1000 empty_db =
      (empty_db\<lparr>reports := [\<lparr>report_id = i, report_ip = ''10.0.0.7'', report_timestamp = 1000\<rparr>],
         reports_seq := i\<rparr>, Response 200 Success)"
    using w1 by (simp add: ip empty_db_def)
  have b: "snd (post_report ?r 5000 (fst (post_report ?r 1000 empty_db))) =
       Response 429 (Error ''You can only report once every 24 hours.'')"
    using w2 [of ?r 5000] by simp
  have c: "snd (post_report ?r 86401001 (fst (post_report ?r 1000 empty_db))) =
       Response 200 Success"
    using w3 [of ?r] by simp
  from a b c show ?thesis by blast
qed

section \<open>Status resolution\<close>

text \<open>
  C2: with \<open>force_status\<close> at "auto", \<open>GET /status\<close> counts the rows whose timestamp is
  strictly above \<open>now - 86400000\<close>, answers the down phrase exactly when that count is
  at least 30 and the up phrase otherwise, and returns the count, all the counted rows
  and \<open>forced: false\<close>. The \<open>GET /status\<close> of \<open>server.js\<close> computes the same status,
  count and rows.
\<close>

theorem get_status_auto:
  assumes "select_setting ''force_status'' d = Some ''auto''"
  shows "get_status now d =
           Response 200
             (Status (if length [r \<leftarrow> reports d. report_timestamp r > now - 86400000] \<ge> 30
                      then ''Korone is probably down'' else ''Korone is up'')
                (length [r \<leftarrow> reports d. report_timestamp r > now - 86400000])
                [r \<leftarrow> reports d. report_timestamp r > now - 86400000] False)
       \<and> get_status_basic now d =
           Response 200
             (BasicStatus (if length [r \<leftarrow> reports d. report_timestamp r > now - 86400000] \<ge> 30
                      then ''Korone is probably down'' else ''Korone is up'')
                (length [r \<leftarrow> reports d. report_timestamp r > now - 86400000])
                [r \<leftarrow> reports d. report_timestamp r > now - 86400000])"
  using assms
  by (simp add: get_status_def get_status_basic_def select_reports_since_def day_ms_def
      up_phrase_def down_phrase_def Let_def)

lemma ledger_auto: "select_setting ''force_status'' (ledger n) = Some ''auto''"
  by (simp add: ledger_def startup_def empty_db_def insert_or_ignore_setting_def select_setting_def)

lemma ledger_recent:
  "[r \<leftarrow> reports (ledger n). report_timestamp r > 100 - 86400000] = reports (ledger n)"
  by (simp add: ledger_def filter_map o_def)

theorem get_status_auto_witness:
  "(\<exists>rs. get_status 100 (ledger 29) = Response 200 (Status ''Korone is up'' 29 rs False))
   \<and> (\<exists>rs. get_status 100 (ledger 30) = Response 200 (Status ''Korone is probably down'' 30 rs False))"
  using get_status_auto [where now = 100, OF ledger_auto [of 29]]
    get_status_auto [where now = 100, OF ledger_auto [of 30]]
  by (simp add: ledger_recent) (simp add: ledger_def)

text \<open>
  C3: with \<open>force_status\<close> at a value other than "auto", \<open>GET /status\<close> answers the up
  phrase when the value is "up" and the down phrase otherwise, with count 0, no rows and
  \<open>forced: true\<close>, whatever the ledger holds.
\<close>

theorem get_status_forced:
  assumes "select_setting ''force_status'' d = Some v" and "v \<noteq> ''auto''"
  shows "get_status now d =
           Response 200
             (Status (if v = ''up'' then ''Korone is up'' else ''Korone is probably down'') 0 [] True)
       \<and> get_status now (d\<lparr>reports := rs\<rparr>) = get_status now d"
  using assms
  by (simp add: get_status_def select_setting_def up_phrase_def down_phrase_def)

theorem get_status_forced_witness:
  "get_status 100 (update_setting ''force_status'' ''up'' (ledger 1000)) =
     Response 200 (Status ''Korone is up'' 0 [] True)
   \<and> get_status 100 (update_setting ''force_status'' ''down'' (ledger 0)) =
     Response 200 (Status ''Korone is probably down'' 0 [] True)"
proof -
  have u: "select_setting ''force_status'' (update_setting ''force_status'' ''up'' (ledger n)) = Some ''up''" for n
    by (simp add: ledger_def startup_def empty_db_def insert_or_ignore_setting_def
        select_setting_def update_setting_def)
  have w: "select_setting ''force_status'' (update_setting ''force_status'' ''down'' (ledger n)) = Some ''down''" for n
    by (simp add: ledger_def startup_def empty_db_def insert_or_ignore_setting_def
        select_setting_def update_setting_def)
  show ?thesis
    using get_status_forced [where now = 100, OF u [of 1000]]
      get_status_forced [where now = 100, OF w [of 0]] by simp
qed

text \<open>
  C10: without a \<open>maintenance_mode\<close> row the access gate never answers with the
  maintenance page and goes on to the blacklist check, as it does with the row at
  "false"; without a \<open>force_status\<close> row \<open>GET /status\<close> computes the status from the
  ledger, as it does with the row at "auto".
\<close>

theorem settings_fallback:
  "(select_setting ''maintenance_mode'' d = None \<longrightarrow>
      access_gate req d \<noteq> Some (Response 200 (SendFile ''public/maintenance.html''))
      \<and> access_gate req d =
          (if select_blacklisted (clientIP req) d \<and> \<not> isAdminPath (req_path req)
           then Some (Response 403 (Error ''Access denied'')) else None)
      \<and> access_gate req d =
          access_gate req (d\<lparr>settings := (''maintenance_mode'', ''false'') # settings d\<rparr>))
   \<and> (select_setting ''force_status'' d = None \<longrightarrow>
      get_status now d =
        Response 200
          (Status (if length [r \<leftarrow> reports d. report_timestamp r > now - 86400000] \<ge> 30
                   then ''Korone is probably down'' else ''Korone is up'')
             (length [r \<leftarrow> reports d. report_timestamp r > now - 86400000])
             [r \<leftarrow> reports d. report_timestamp r > now - 86400000] False)
      \<and> get_status now d =
          get_status now (d\<lparr>settings := (''force_status'', ''auto'') # settings d\<rparr>))"
  by (simp add: access_gate_def maintenance_page_def access_denied_def select_setting_def
      select_blacklisted_def get_status_def select_reports_since_def day_ms_def
      up_phrase_def down_phrase_def Let_def)

theorem settings_fallback_witness:
  "access_gate (visitor GET ''/index.html'' ''10.0.0.7'') empty_db = None
   \<and> get_status 100 empty_db = Response 200 (Status ''Korone is up'' 0 [] False)"
  using settings_fallback [of empty_db "visitor GET ''/index.html'' ''10.0.0.7''" 100]
  by (simp add: empty_db_def select_setting_def select_blacklisted_def)

section \<open>The access gate\<close>

text \<open>
  C4: the access gate lets every admin path through. On any other path it answers with
  the maintenance page when the path is no static asset and \<open>maintenance_mode\<close> is
  "true", before it looks at the blacklist; when the maintenance check does not apply
  (a static asset, or maintenance not "true") it answers 403 "Access denied" for a
  blacklisted client address and passes the request on otherwise. A request the gate
  answers leaves the store as it was.
\<close>

theorem access_gate_order:
  "(isAdminPath (req_path req) \<longrightarrow> access_gate req d = None)
   \<and> (\<not> isAdminPath (req_path req) \<and> \<not> isStaticAsset (req_path req)
        \<and> select_setting ''maintenance_mode'' d = Some ''true'' \<longrightarrow>
      access_gate req d = Some (Response 200 (SendFile ''public/maintenance.html'')))
   \<and> (\<not> isAdminPath (req_path req)
        \<and> (isStaticAsset (req_path req) \<or> select_setting ''maintenance_mode'' d \<noteq> Some ''true'') \<longrightarrow>
      access_gate req d =
        (if clientIP req \<in> bl_ip ` set (blacklisted_ips d)
         then Some (Response 403 (Error ''Access denied'')) else None))
   \<and> (\<forall>r. access_gate req d = Some r \<longrightarrow> app cfg now fault req d = (d, req_session req, r))"
  by (auto simp: access_gate_def maintenance_page_def access_denied_def select_blacklisted_iff
      app_def split: option.splits)

lemma seeded_maintenance_on:
  "select_setting ''maintenance_mode''
     (update_setting ''maintenance_mode'' ''true'' (startup empty_db)) = Some ''true''"
  by (simp add: startup_def empty_db_def insert_or_ignore_setting_def select_setting_def
      update_setting_def)

lemma sample_paths:
  "\<not> isAdminPath ''/index.html''" "\<not> isAdminPath ''/logo.png''" "isAdminPath ''/admin''"
  by (simp_all add: isAdminPath_def)

lemma sample_assets:
  "\<not> isStaticAsset ''/index.html''" "isStaticAsset ''/logo.png''" "isStaticAsset ''/Logo.PNG''"
  by code_simp+

theorem access_gate_order_witness:
  "access_gate (visitor GET ''/index.html'' ''10.0.0.7'')
       (update_setting ''maintenance_mode'' ''true'' (startup empty_db)) =
     Some (Response 200 (SendFile ''public/maintenance.html''))
   \<and> access_gate (visitor GET ''/logo.png'' ''10.0.0.7'')
       (update_setting ''maintenance_mode'' ''true'' (startup empty_db)) = None
   \<and> access_gate (visitor GET ''/admin'' ''10.0.0.7'')
       (update_setting ''maintenance_mode'' ''true'' (startup empty_db)) = None"
proof -
  let ?d = "update_setting ''maintenance_mode'' ''true'' (startup empty_db)"
  have e: "blacklisted_ips ?d = []"
    by (simp add: startup_def empty_db_def insert_or_ignore_setting_def update_setting_def)
  show ?thesis
    using access_gate_order [of "visitor GET ''/index.html'' ''10.0.0.7''" ?d]
      access_gate_order [of "visitor GET ''/logo.png'' ''10.0.0.7''" ?d]
      access_gate_order [of "visitor GET ''/admin'' ''10.0.0.7''" ?d]
    by (simp add: visitor_def seeded_maintenance_on e sample_paths sample_assets)
qed

section \<open>The admin session gate\<close>

lemma route_param_admin:
  "route_param ''/admin/blacklist/'' p = Some a \<Longrightarrow> isAdminPath p"
  by (auto simp: route_param_def isAdminPath_def prefix_def split: if_splits)

lemma admin_path_passes: "isAdminPath (req_path req) \<Longrightarrow> access_gate req d = None"
  by (simp add: access_gate_def)

lemma requireAuth_no_session:
  "\<forall>s. req_session req = Some s \<longrightarrow> \<not> isAdmin s \<Longrightarrow>
     requireAuth req h d = (d, Response 401 (Error ''Authentication required''))"
  by (auto simp: requireAuth_def authentication_required_def split: option.splits)

lemma requireAuth_session:
  "req_session req = Some s \<Longrightarrow> isAdmin s \<Longrightarrow> requireAuth req h d = h d"
  by (simp add: requireAuth_def)

lemma guarded_router:
  assumes "guarded req" and "\<forall>s. req_session req = Some s \<longrightarrow> \<not> isAdmin s"
  shows "router cfg now fault req d =
          (d, req_session req, Response 401 (Error ''Authentication required''))"
proof -
  note r = requireAuth_no_session [OF assms(2)]
  consider (a) "is_get (req_method req)" "req_path req = ''/admin/dashboard''"
    | (b) "req_method req = POST" "req_path req = ''/admin/set-status''"
    | (c) "req_method req = POST" "req_path req = ''/admin/maintenance''"
    | (e) "req_method req = POST" "req_path req = ''/admin/blacklist''"
    | (f) "req_method req = DELETE" "route_param ''/admin/blacklist/'' (req_path req) \<noteq> None"
    using assms(1) unfolding guarded_def by blast
  then show ?thesis
  proof cases
    case a then show ?thesis by (simp add: router_def keep_session_def r is_get_def)
  next
    case b then show ?thesis by (simp add: router_def keep_session_def r is_get_def)
  next
    case c then show ?thesis by (simp add: router_def keep_session_def r is_get_def)
  next
    case e then show ?thesis by (simp add: router_def keep_session_def r is_get_def)
  next
    case f
    then obtain a where a: "route_param ''/admin/blacklist/'' (req_path req) = Some a"
      by blast
    have "req_path req \<noteq> ''/admin/login''" "req_path req \<noteq> ''/admin/logout''"
      "req_path req \<noteq> ''/admin''" "req_path req \<noteq> ''/admin/dashboard''"
      "req_path req \<noteq> ''/admin/set-status''" "req_path req \<noteq> ''/admin/maintenance''"
      "req_path req \<noteq> ''/admin/blacklist''"
      using a by (auto simp: route_param_def split: if_splits)
    with f a show ?thesis by (simp add: router_def keep_session_def r is_get_def)
  qed
qed

lemma guarded_admin: "guarded req \<Longrightarrow> isAdminPath (req_path req)"
  using route_param_admin [of "req_path req"] by (auto simp: guarded_def isAdminPath_def)

text \<open>
  C5: without an authenticated admin session \<open>requireAuth\<close> answers 401 "Authentication
  required" and returns the store untouched, whatever handler it wraps; so do the five
  guarded routes (dashboard, set-status, maintenance, blacklist add, blacklist remove)
  in the router, and in the whole application unless a public file shadows the path.
\<close>

theorem requireAuth_rejects:
  assumes "\<forall>s. req_session req = Some s \<longrightarrow> \<not> isAdmin s"
  shows "requireAuth req handler d = (d, Response 401 (Error ''Authentication required''))
     \<and> (guarded req \<longrightarrow>
        router cfg now fault req d =
          (d, req_session req, Response 401 (Error ''Authentication required''))
        \<and> (\<not> (is_get (req_method req) \<and> req_path req \<in> set (public_files cfg)) \<longrightarrow>
           app cfg now fault req d =
             (d, req_session req, Response 401 (Error ''Authentication required''))))"
  using requireAuth_no_session [OF assms] guarded_router [OF _ assms] guarded_admin [of req]
  by (simp add: app_def admin_path_passes)

theorem requireAuth_rejects_witness:
  "app bare_config 5 None (visitor POST ''/admin/set-status'' ''10.0.0.7''
       \<lparr>req_body := empty_body\<lparr>status := Some ''down''\<rparr>\<rparr>) (startup empty_db) =
     (startup empty_db, None, Response 401 (Error ''Authentication required''))
   \<and> app bare_config 5 None (visitor DELETE ''/admin/blacklist/10.0.0.7'' ''10.0.0.7'')
       (startup empty_db) =
     (startup empty_db, None, Response 401 (Error ''Authentication required''))"
proof -
  let ?a = "visitor POST ''/admin/set-status'' ''10.0.0.7''
       \<lparr>req_body := empty_body\<lparr>status := Some ''down''\<rparr>\<rparr>"
  let ?b = "visitor DELETE ''/admin/blacklist/10.0.0.7'' ''10.0.0.7''"
  have a: "\<forall>s. req_session ?a = Some s \<longrightarrow> \<not> isAdmin s"
    by (simp add: visitor_def)
  have b: "\<forall>s. req_session ?b = Some s \<longrightarrow> \<not> isAdmin s"
    by (simp add: visitor_def)
  have g: "guarded ?a" "guarded ?b"
    by (simp_all add: guarded_def visitor_def route_param_def)
  have m: "req_method ?a = POST" "req_method ?b = DELETE" "req_session ?a = None"
    "req_session ?b = None"
    by (simp_all add: visitor_def)
  show ?thesis
    using requireAuth_rejects [OF a, of "post_admin_set_status (req_body ?a)"
        "startup empty_db" bare_config 5 None]
      requireAuth_rejects [OF b, of "delete_admin_blacklist ''10.0.0.7''"
        "startup empty_db" bare_config 5 None]
    by (simp add: g m is_get_def)
qed

section \<open>What a request can do to the store\<close>

lemma router_preserves:
  assumes "P d"
    and "P (fst (post_admin_set_status (req_body req) d))"
    and "P (fst (post_admin_maintenance (req_body req) d))"
    and "P (fst (post_admin_blacklist now fault (req_body req) d))"
    and "\<And>a. P (fst (delete_admin_blacklist a d))"
    and "P (fst (post_report req now d))"
  shows "P (fst (router cfg now fault req d))"
proof -
  have ra: "P (fst (requireAuth req h d))" if "P (fst (h d))" for h
    using that assms(1) by (simp add: requireAuth_def)
  have dash: "fst (get_admin_dashboard now d) = d"
    by (simp add: get_admin_dashboard_def)
  have ks: "fst (keep_session req x) = fst x" for x
    by (simp add: keep_session_def)
  have kd: "fst (keep_db d x) = d" for x
    by (simp add: keep_db_def)
  show ?thesis
    unfolding router_def Let_def
    by (simp add: ks kd ra assms dash split: option.split)
qed

lemma app_preserves:
  assumes "P d"
    and "P (fst (post_admin_set_status (req_body req) d))"
    and "P (fst (post_admin_maintenance (req_body req) d))"
    and "P (fst (post_admin_blacklist now fault (req_body req) d))"
    and "\<And>a. P (fst (delete_admin_blacklist a d))"
    and "P (fst (post_report req now d))"
  shows "P (fst (app cfg now fault req d))"
  using router_preserves [of P, OF assms] assms(1)
  by (simp add: app_def split: option.split)

section \<open>Settings\<close>

lemma map_of_rewrite_hit:
  "k \<in> fst ` set xs \<Longrightarrow>
     map_of (map (\<lambda>(k', v'). if k' = k then (k', v) else (k', v')) xs) k = Some v"
  by (induction xs) auto

lemma map_of_rewrite_miss:
  "j \<noteq> k \<Longrightarrow>
     map_of (map (\<lambda>(k', v'). if k' = k then (k', v) else (k', v')) xs) j = map_of xs j"
  by (induction xs) auto

lemma keys_rewrite:
  "map fst (map (\<lambda>(k', v'). if k' = k then (k', v) else (k', v')) xs) = map fst xs"
  by (induction xs) auto

lemma rewrite_absent:
  "k \<notin> fst ` set xs \<Longrightarrow>
     map (\<lambda>(k', v'). if k' = k then (k', v) else (k', v')) xs = xs"
  by (induction xs) auto

lemma update_setting_hit:
  "k \<in> fst ` set (settings d) \<Longrightarrow> select_setting k (update_setting k v d) = Some v"
  by (simp add: select_setting_def update_setting_def map_of_rewrite_hit)

lemma update_setting_miss:
  "j \<noteq> k \<Longrightarrow> select_setting j (update_setting k v d) = select_setting j d"
  by (simp add: select_setting_def update_setting_def map_of_rewrite_miss)

lemma update_setting_keys: "map fst (settings (update_setting k v d)) = map fst (settings d)"
  by (simp add: update_setting_def keys_rewrite del: map_map)

lemma update_setting_absent:
  "k \<notin> fst ` set (settings d) \<Longrightarrow> update_setting k v d = d"
  by (simp add: update_setting_def rewrite_absent)

lemma update_setting_tables:
  "reports (update_setting k v d) = reports d"
  "blacklisted_ips (update_setting k v d) = blacklisted_ips d"
  by (simp_all add: update_setting_def)

lemma set_status_settings:
  "map fst (settings (fst (post_admin_set_status b d))) = map fst (settings d)"
  by (simp add: post_admin_set_status_def update_setting_keys split: option.splits)

lemma maintenance_settings:
  "map fst (settings (fst (post_admin_maintenance b d))) = map fst (settings d)"
  by (simp add: post_admin_maintenance_def update_setting_keys)

lemma blacklist_settings:
  "settings (fst (post_admin_blacklist now fault b d)) = settings d"
  by (simp add: post_admin_blacklist_def insert_blacklisted_def Let_def
      split: option.splits sum.splits if_splits)

lemma delete_settings: "settings (fst (delete_admin_blacklist a d)) = settings d"
  by (simp add: delete_admin_blacklist_def delete_blacklisted_def)

lemma report_settings: "settings (fst (post_report req now d)) = settings d"
  by (simp add: post_report_def insert_report_def Let_def)

lemma app_settings_keys:
  "map fst (settings (fst (app cfg now fault req d))) = map fst (settings d)"
  by (rule app_preserves)
    (simp_all add: set_status_settings maintenance_settings blacklist_settings delete_settings
      report_settings)

lemma run_settings_keys: "map fst (settings (run cfg evs d)) = map fst (settings d)"
  by (induction evs arbitrary: d) (simp_all add: app_settings_keys)

lemma startup_keys:
  "''force_status'' \<in> fst ` set (settings (startup d))"
  "''maintenance_mode'' \<in> fst ` set (settings (startup d))"
  by (auto simp: startup_def insert_or_ignore_setting_def)

lemma run_seeded:
  "''force_status'' \<in> fst ` set (settings (run cfg evs (startup d)))"
  "''maintenance_mode'' \<in> fst ` set (settings (run cfg evs (startup d)))"
proof -
  have "fst ` set (settings (run cfg evs (startup d))) = fst ` set (settings (startup d))"
    using run_settings_keys [of cfg evs "startup d"] by (metis set_map)
  then show "''force_status'' \<in> fst ` set (settings (run cfg evs (startup d)))"
    "''maintenance_mode'' \<in> fst ` set (settings (run cfg evs (startup d)))"
    by (simp_all add: startup_keys)
qed

lemma admin_session:
  "req_session (admin m p b) = Some \<lparr>isAdmin = True\<rparr>" "isAdmin \<lparr>isAdmin = True\<rparr>"
  by (simp_all add: admin_def)

text \<open>
  C6: in every state the service reaches after start-up, \<open>POST /admin/set-status\<close> with
  an authenticated session answers 400 and leaves the store as it is when the status is
  missing or not one of "up", "down", "auto"; otherwise it answers success, the
  \<open>force_status\<close> setting then equals the supplied value, every setting reads as it would
  after an upsert of \<open>force_status\<close>, and the other tables are unchanged. The program's
  statement is an UPDATE; the row it rewrites is seeded at start-up and never deleted.
\<close>

theorem set_status_spec:
  assumes "req_session req = Some s" and "isAdmin s"
  shows "(status b \<notin> {Some ''up'', Some ''down'', Some ''auto''} \<longrightarrow>
       requireAuth req (post_admin_set_status b) (run cfg evs (startup d0)) =
         (run cfg evs (startup d0),
          Response 400 (Error ''Invalid status. Must be up, down, or auto'')))
   \<and> (\<forall>v \<in> {''up'', ''down'', ''auto''}. status b = Some v \<longrightarrow>
        snd (requireAuth req (post_admin_set_status b) (run cfg evs (startup d0))) =
          Response 200 Success
        \<and> select_setting ''force_status''
            (fst (requireAuth req (post_admin_set_status b) (run cfg evs (startup d0)))) = Some v
        \<and> (\<forall>k. select_setting k
               (fst (requireAuth req (post_admin_set_status b) (run cfg evs (startup d0)))) =
             select_setting k (spec_upsert_setting ''force_status'' v (run cfg evs (startup d0))))
        \<and> reports (fst (requireAuth req (post_admin_set_status b) (run cfg evs (startup d0)))) =
            reports (run cfg evs (startup d0))
        \<and> blacklisted_ips
            (fst (requireAuth req (post_admin_set_status b) (run cfg evs (startup d0)))) =
            blacklisted_ips (run cfg evs (startup d0)))"
proof -
  let ?d = "run cfg evs (startup d0)"
  have auth: "requireAuth req h ?d = h ?d" for h
    using assms by (rule requireAuth_session)
  have seeded: "''force_status'' \<in> fst ` set (settings ?d)"
    by (rule run_seeded)
  have bad: "post_admin_set_status b ?d =
      (?d, Response 400 (Error ''Invalid status. Must be up, down, or auto''))"
    if "status b \<notin> {Some ''up'', Some ''down'', Some ''auto''}"
    using that by (auto simp: post_admin_set_status_def split: option.splits)
  have good: "post_admin_set_status b ?d = (update_setting ''force_status'' v ?d, Response 200 Success)"
    if "v \<in> {''up'', ''down'', ''auto''}" "status b = Some v" for v
    using that by (auto simp: post_admin_set_status_def)
  have ups: "spec_upsert_setting ''force_status'' v ?d = update_setting ''force_status'' v ?d" for v
    using seeded by (simp add: spec_upsert_setting_def)
  show ?thesis
    using bad good seeded
    by (simp add: auth ups update_setting_hit update_setting_tables)
qed

theorem set_status_spec_witness:
  "select_setting ''force_status''
     (fst (requireAuth (admin POST ''/admin/set-status'' (empty_body\<lparr>status := Some ''down''\<rparr>))
        (post_admin_set_status (empty_body\<lparr>status := Some ''down''\<rparr>))
        (run bare_config [] (startup empty_db)))) = Some ''down''
   \<and> requireAuth (admin POST ''/admin/set-status'' (empty_body\<lparr>status := Some ''sideways''\<rparr>))
        (post_admin_set_status (empty_body\<lparr>status := Some ''sideways''\<rparr>))
        (run bare_config [] (startup empty_db)) =
       (run bare_config [] (startup empty_db),
        Response 400 (Error ''Invalid status. Must be up, down, or auto''))
   \<and> requireAuth (admin POST ''/admin/set-status'' empty_body)
        (post_admin_set_status empty_body) (run bare_config [] (startup empty_db)) =
       (run bare_config [] (startup empty_db),
        Response 400 (Error ''Invalid status. Must be up, down, or auto''))"
proof -
  let ?down = "empty_body\<lparr>status := Some ''down''\<rparr>"
  let ?side = "empty_body\<lparr>status := Some ''sideways''\<rparr>"
  let ?s = "\<lparr>isAdmin = True\<rparr>"
  have st: "status ?down = Some ''down''" "status ?side = Some ''sideways''"
    "status empty_body = None"
    by (simp_all add: empty_body_def)
  note a = set_status_spec [of "admin POST ''/admin/set-status'' ?down" ?s ?down bare_config
      "[]" empty_db, OF admin_session, THEN conjunct2, rule_format, of "''down''"]
  note b = set_status_spec [of "admin POST ''/admin/set-status'' ?side" ?s ?side bare_config
      "[]" empty_db, OF admin_session, THEN conjunct1, rule_format]
  note c = set_status_spec [of "admin POST ''/admin/set-status'' empty_body" ?s empty_body
      bare_config "[]" empty_db, OF admin_session, THEN conjunct1, rule_format]
  have "select_setting ''force_status''
     (fst (requireAuth (admin POST ''/admin/set-status'' ?down) (post_admin_set_status ?down)
        (run bare_config [] (startup empty_db)))) = Some ''down''"
  proof -
    have v: "''down'' \<in> {''up'', ''down'', ''auto''}" by simp
    show ?thesis by (rule a [OF v st(1), THEN conjunct2, THEN conjunct1])
  qed
  moreover have "requireAuth (admin POST ''/admin/set-status'' ?side)
        (post_admin_set_status ?side) (run bare_config [] (startup empty_db)) =
       (run bare_config [] (startup empty_db),
        Response 400 (Error ''Invalid status. Must be up, down, or auto''))"
    using b st(2) by simp
  moreover have "requireAuth (admin POST ''/admin/set-status'' empty_body)
        (post_admin_set_status empty_body) (run bare_config [] (startup empty_db)) =
       (run bare_config [] (startup empty_db),
        Response 400 (Error ''Invalid status. Must be up, down, or auto''))"
    using c st(3) by simp
  ultimately show ?thesis by blast
qed

section \<open>The blacklist\<close>

lemma unique_violation_message: "str_includes unique_violation ''UNIQUE constraint failed''"
  by code_simp

text \<open>
  C7: \<open>POST /admin/blacklist\<close> with an authenticated session answers 400 without a write
  when the address is missing or empty; 400 "IP already blacklisted" without a write when
  the address is already in the blacklist; 500 "Database error" without a write when the
  engine fails with any message that is not a UNIQUE violation; and otherwise inserts the
  single entry (address, current time, reason), the reason being "No reason provided"
  when none is given, and answers success.
\<close>

theorem blacklist_add_spec:
  assumes "req_session req = Some s" and "isAdmin s"
  shows "((ip b = None \<or> ip b = Some []) \<longrightarrow>
        requireAuth req (post_admin_blacklist now fault b) d =
          (d, Response 400 (Error ''IP address required'')))
   \<and> (\<forall>a. ip b = Some a \<and> a \<noteq> [] \<longrightarrow>
        (fault = None \<and> a \<in> bl_ip ` set (blacklisted_ips d) \<longrightarrow>
           requireAuth req (post_admin_blacklist now fault b) d =
             (d, Response 400 (Error ''IP already blacklisted'')))
        \<and> (\<forall>m. fault = Some m \<and> \<not> str_includes m ''UNIQUE constraint failed'' \<longrightarrow>
           requireAuth req (post_admin_blacklist now fault b) d =
             (d, Response 500 (Error ''Database error'')))
        \<and> (fault = None \<and> a \<notin> bl_ip ` set (blacklisted_ips d) \<longrightarrow>
           (\<exists>i. requireAuth req (post_admin_blacklist now fault b) d =
             (d\<lparr>blacklisted_ips := blacklisted_ips d @
                  [\<lparr>bl_id = i, bl_ip = a, bl_timestamp = now,
                    bl_reason = (case reason b of None \<Rightarrow> ''No reason provided''
                                 | Some w \<Rightarrow> if w = [] then ''No reason provided'' else w)\<rparr>],
                blacklisted_ips_seq := i\<rparr>,
              Response 200 Success))))"
proof -
  have auth: "requireAuth req h d = h d" for h
    using assms by (rule requireAuth_session)
  show ?thesis
    unfolding auth
    by (auto simp: post_admin_blacklist_def insert_blacklisted_def select_blacklisted_iff
        unique_violation_message or_else_def Let_def split: option.splits)
qed

theorem blacklist_add_spec_witness:
  "requireAuth (add_request ''10.0.0.7'') (post_admin_blacklist 7 None (req_body (add_request ''10.0.0.7'')))
      empty_db =
     (empty_db\<lparr>blacklisted_ips :=
        [\<lparr>bl_id = 1, bl_ip = ''10.0.0.7'', bl_timestamp = 7, bl_reason = ''No reason provided''\<rparr>],
        blacklisted_ips_seq := 1\<rparr>, Response 200 Success)
   \<and> requireAuth (add_request ''10.0.0.7'')
        (post_admin_blacklist 7 (Some ''SQLITE_FULL: database or disk is full'')
           (req_body (add_request ''10.0.0.7''))) empty_db =
     (empty_db, Response 500 (Error ''Database error''))
   \<and> requireAuth (add_request []) (post_admin_blacklist 7 None (req_body (add_request [])))
        empty_db =
     (empty_db, Response 400 (Error ''IP address required''))"
proof -
  let ?b = "req_body (add_request ''10.0.0.7'')"
  have s: "req_session (add_request a) = Some \<lparr>isAdmin = True\<rparr>" for a
    by (simp add: add_request_def admin_def)
  have b: "ip ?b = Some ''10.0.0.7''" "reason ?b = None" "ip (req_body (add_request [])) = Some []"
    by (simp_all add: add_request_def admin_def empty_body_def)
  have f: "\<not> str_includes ''SQLITE_FULL: database or disk is full'' ''UNIQUE constraint failed''"
    by code_simp
  have e: "blacklisted_ips empty_db = []" "blacklisted_ips_seq empty_db = 0"
    by (simp_all add: empty_db_def)
  have i: "post_admin_blacklist 7 None ?b empty_db =
     (empty_db\<lparr>blacklisted_ips :=
        [\<lparr>bl_id = 1, bl_ip = ''10.0.0.7'', bl_timestamp = 7, bl_reason = ''No reason provided''\<rparr>],
        blacklisted_ips_seq := 1\<rparr>, Response 200 Success)"
    by (simp add: post_admin_blacklist_def insert_blacklisted_def select_blacklisted_def b e
        or_else_def next_id_def)
  show ?thesis
    using blacklist_add_spec [OF s admin_session(2), where b = ?b and now = 7 and fault = None
        and d = empty_db]
      blacklist_add_spec [OF s admin_session(2), where b = ?b and now = 7
        and fault = "Some ''SQLITE_FULL: database or disk is full''" and d = empty_db]
      blacklist_add_spec [OF s admin_session(2), where b = "req_body (add_request [])"
        and now = 7 and fault = None and d = empty_db]
    by (simp add: b f e requireAuth_session [OF s admin_session(2)] i)
qed

lemma blacklist_add_distinct:
  "distinct (map bl_ip (blacklisted_ips d)) \<Longrightarrow>
     distinct (map bl_ip (blacklisted_ips (fst (post_admin_blacklist now fault b d))))"
  by (auto simp: post_admin_blacklist_def insert_blacklisted_def select_blacklisted_iff
      Let_def split: option.splits sum.splits if_splits)

lemma blacklist_delete_distinct:
  "distinct (map bl_ip (blacklisted_ips d)) \<Longrightarrow>
     distinct (map bl_ip (blacklisted_ips (fst (delete_admin_blacklist a d))))"
  by (simp add: delete_admin_blacklist_def delete_blacklisted_def distinct_map_filter)

lemma set_status_blacklist:
  "blacklisted_ips (fst (post_admin_set_status b d)) = blacklisted_ips d"
  by (simp add: post_admin_set_status_def update_setting_tables split: option.splits)

lemma maintenance_blacklist:
  "blacklisted_ips (fst (post_admin_maintenance b d)) = blacklisted_ips d"
  by (simp add: post_admin_maintenance_def update_setting_tables)

lemma report_blacklist: "blacklisted_ips (fst (post_report req now d)) = blacklisted_ips d"
  by (simp add: post_report_def insert_report_def Let_def)

lemma app_blacklist_distinct:
  assumes "distinct (map bl_ip (blacklisted_ips d))"
  shows "distinct (map bl_ip (blacklisted_ips (fst (app cfg now fault req d))))"
  by (rule app_preserves)
    (simp_all add: assms set_status_blacklist maintenance_blacklist report_blacklist
      blacklist_add_distinct blacklist_delete_distinct)

lemma startup_blacklist: "blacklisted_ips (startup d) = blacklisted_ips d"
  by (simp add: startup_def insert_or_ignore_setting_def)

text \<open>
  C8: when the store read at start-up has no address twice in its blacklist, then after
  start-up and any sequence of requests no address is twice in the blacklist; in every
  such state the insert of an address that is present fails with the UNIQUE violation.
\<close>

theorem blacklist_unique:
  assumes "distinct (map bl_ip (blacklisted_ips d0))"
  shows "distinct (map bl_ip (blacklisted_ips (run cfg evs (startup d0))))
     \<and> (\<forall>a t why. a \<in> bl_ip ` set (blacklisted_ips (run cfg evs (startup d0))) \<longrightarrow>
          insert_blacklisted None a t why (run cfg evs (startup d0)) = Inl unique_violation)"
proof -
  have "distinct (map bl_ip (blacklisted_ips (run cfg evs d)))"
    if "distinct (map bl_ip (blacklisted_ips d))" for d
    using that by (induction evs arbitrary: d) (simp_all add: app_blacklist_distinct)
  then show ?thesis
    using assms by (simp add: startup_blacklist insert_blacklisted_def select_blacklisted_iff)
qed

theorem blacklist_unique_witness:
  "distinct (map bl_ip (blacklisted_ips empty_db))
   \<and> distinct (map bl_ip (blacklisted_ips
        (run bare_config [add_event ''10.0.0.7'' 7, add_event ''10.0.0.7'' 8] (startup empty_db))))
   \<and> insert_blacklisted None ''10.0.0.7'' 9 ''again''
        (run bare_config [add_event ''10.0.0.7'' 7] (startup empty_db)) = Inl unique_violation"
proof -
  have e: "distinct (map bl_ip (blacklisted_ips empty_db))"
    by (simp add: empty_db_def)
  have g: "access_gate (add_request a) d = None" for a d
    by (rule admin_path_passes) (simp add: add_request_def admin_def isAdminPath_def)
  have r: "blacklisted_ips (run bare_config [add_event ''10.0.0.7'' 7] (startup empty_db)) =
      [\<lparr>bl_id = 1, bl_ip = ''10.0.0.7'', bl_timestamp = 7, bl_reason = ''No reason provided''\<rparr>]"
    by (simp add: add_event_def app_def g bare_config_def is_get_def)
      (simp add: add_request_def admin_def router_def keep_session_def requireAuth_def
        post_admin_blacklist_def empty_body_def insert_blacklisted_def select_blacklisted_def
        startup_def insert_or_ignore_setting_def empty_db_def or_else_def next_id_def)
  have m: "''10.0.0.7'' \<in> bl_ip ` set (blacklisted_ips
      (run bare_config [add_event ''10.0.0.7'' 7] (startup empty_db)))"
    unfolding r by simp
  note u2 = blacklist_unique [OF e, where cfg = bare_config
      and evs = "[add_event ''10.0.0.7'' 7, add_event ''10.0.0.7'' 8]", THEN conjunct1]
  note u1 = blacklist_unique [OF e, where cfg = bare_config
      and evs = "[add_event ''10.0.0.7'' 7]", THEN conjunct2, rule_format, OF m]
  from e u2 u1 show ?thesis by blast
qed

text \<open>
  C9: \<open>DELETE /admin/blacklist/:ip\<close> with an authenticated session always answers
  success; afterwards the address is not in the blacklist and the other entries are as
  before; removing twice gives what removing once gives; and removing an address that is
  not there changes nothing.
\<close>

theorem blacklist_remove_idempotent:
  assumes "req_session req = Some s" and "isAdmin s"
  shows "snd (requireAuth req (delete_admin_blacklist a) d) = Response 200 Success
   \<and> a \<notin> bl_ip ` set (blacklisted_ips (fst (requireAuth req (delete_admin_blacklist a) d)))
   \<and> blacklisted_ips (fst (requireAuth req (delete_admin_blacklist a) d)) =
       [e \<leftarrow> blacklisted_ips d. bl_ip e \<noteq> a]
   \<and> requireAuth req (delete_admin_blacklist a)
        (fst (requireAuth req (delete_admin_blacklist a) d)) =
       requireAuth req (delete_admin_blacklist a) d
   \<and> (a \<notin> bl_ip ` set (blacklisted_ips d) \<longrightarrow>
        requireAuth req (delete_admin_blacklist a) d = (d, Response 200 Success))"
proof -
  have auth: "requireAuth req h x = h x" for h x
    using assms by (rule requireAuth_session)
  have same: "[e \<leftarrow> blacklisted_ips d. bl_ip e \<noteq> a] = blacklisted_ips d"
    if "a \<notin> bl_ip ` set (blacklisted_ips d)"
    using that by (auto intro: filter_True)
  show ?thesis
    unfolding auth
    using same by (auto simp: delete_admin_blacklist_def delete_blacklisted_def)
qed

theorem blacklist_remove_idempotent_witness:
  "requireAuth (admin DELETE ''/admin/blacklist/10.0.0.7'' empty_body)
      (delete_admin_blacklist ''10.0.0.7'') empty_db = (empty_db, Response 200 Success)"
  using blacklist_remove_idempotent [OF admin_session, where a = "''10.0.0.7''"
      and d = empty_db]
  by (simp add: empty_db_def)

end
